theory Spec2Isabelle
  imports Complex_Main "HOL-Library.AList"
begin

section \<open>Data model\<close>

text \<open>
  The search core of Super Bookmarks (\<^verbatim>\<open>VectorSearch\<close> in
  \<^verbatim>\<open>lib/embeddings/embedding-client.js\<close>, the record store in
  \<^verbatim>\<open>lib/db\<close> and the query router \<^verbatim>\<open>SearchView.handleSearch\<close>).

  JavaScript numbers are modelled as real numbers: arithmetic is exact, there is no
  rounding, no \<^verbatim>\<open>NaN\<close> and no infinity. Strings are lists of 8-bit characters
  (the code units below 256) with the case conversions of Latin-1. An \<^verbatim>\<open>await\<close> is an ordinary call:
  the record store does not change while one operation runs.
\<close>

datatype error =
    DimensionMismatch    \<comment> \<open>\<^verbatim>\<open>new Error('Vectors must have the same length')\<close>\<close>
  | TypeError            \<comment> \<open>iterating a \<^verbatim>\<open>null\<close> cache\<close>
  | RegExpNotModelled    \<comment> \<open>a keyword that uses regular expression syntax beyond literals and \<^verbatim>\<open>.\<close>\<close>

record note_record =
  note_id :: string
  title :: string
  content :: string
  tags :: "string list"

record scored_note = note_record +
  score :: real

record embedding =
  noteId :: string
  vector :: "real list"
  modelVersion :: string

text \<open>
  The record store. \<open>notesStore\<close> lists the records of the object store \<^verbatim>\<open>notes\<close> in
  the order in which the cursor of \<^verbatim>\<open>getAllNotes\<close> visits them (index
  \<^verbatim>\<open>byUpdatedAt\<close>, newest first); \<open>embeddingsStore\<close> lists the object store
  \<^verbatim>\<open>embeddings\<close> in cursor order. Both stores have a key path (\<^verbatim>\<open>id\<close>,
  \<^verbatim>\<open>noteId\<close>), so a key occurs once: \<open>store_ok\<close>.
\<close>

record database =
  notesStore :: "note_record list"
  embeddingsStore :: "embedding list"


definition getNote :: "database \<Rightarrow> string \<Rightarrow> note_record option" where
  "getNote db k = find (\<lambda>n. note_id n = k) (notesStore db)"

definition getEmbedding :: "database \<Rightarrow> string \<Rightarrow> embedding option" where
  "getEmbedding db k = find (\<lambda>e. noteId e = k) (embeddingsStore db)"

text \<open>
  \<^verbatim>\<open>getAllNotes({limit, offset})\<close>: the cursor callback stops once \<^verbatim>\<open>limit\<close> records
  are collected, skips the first \<^verbatim>\<open>offset\<close> records and pushes the others.
\<close>

fun getAllNotes_cursor :: "nat \<Rightarrow> nat \<Rightarrow> nat \<Rightarrow> note_record list \<Rightarrow> note_record list \<Rightarrow> note_record list" where
  "getAllNotes_cursor limit offset skipped results [] = results"
| "getAllNotes_cursor limit offset skipped results (n # rest) =
     (if length results \<ge> limit then results
      else if skipped < offset then getAllNotes_cursor limit offset (Suc skipped) results rest
      else getAllNotes_cursor limit offset skipped (results @ [n]) rest)"

definition getAllNotes :: "database \<Rightarrow> nat \<Rightarrow> nat \<Rightarrow> note_record list" where
  "getAllNotes db limit offset = getAllNotes_cursor limit offset 0 [] (notesStore db)"

text \<open>
  \<^verbatim>\<open>getAllEmbeddings\<close> fills a JavaScript \<^verbatim>\<open>Map\<close>: an association list in
  insertion order, where \<^verbatim>\<open>set\<close> replaces the value of a key in place and appends a
  new key.
\<close>

definition getAllEmbeddings :: "database \<Rightarrow> (string \<times> embedding) list" where
  "getAllEmbeddings db = fold (\<lambda>e cache. AList.update (noteId e) e cache) (embeddingsStore db) []"

section \<open>Strings\<close>

text \<open>
  \<^verbatim>\<open>String.prototype.toLowerCase\<close> on the 8-bit characters: the letters
  \<^verbatim>\<open>A\<close> to \<^verbatim>\<open>Z\<close> and the Latin-1 capitals \<^verbatim>\<open>U+00C0\<close> to \<^verbatim>\<open>U+00DE\<close>
  (without the sign \<^verbatim>\<open>U+00D7\<close>) have a lower-case form, 32 code points further;
  every other 8-bit character is its own lower case.
\<close>

definition upperLetters :: string where
  "upperLetters = ''ABCDEFGHIJKLMNOPQRSTUVWXYZ'' @
     [
      CHR 0xC0, CHR 0xC1, CHR 0xC2, CHR 0xC3, CHR 0xC4, CHR 0xC5, CHR 0xC6, CHR 0xC7,
      CHR 0xC8, CHR 0xC9, CHR 0xCA, CHR 0xCB, CHR 0xCC, CHR 0xCD, CHR 0xCE, CHR 0xCF,
      CHR 0xD0, CHR 0xD1, CHR 0xD2, CHR 0xD3, CHR 0xD4, CHR 0xD5, CHR 0xD6, CHR 0xD8,
      CHR 0xD9, CHR 0xDA, CHR 0xDB, CHR 0xDC, CHR 0xDD, CHR 0xDE]"

definition lowerLetters :: string where
  "lowerLetters = ''abcdefghijklmnopqrstuvwxyz'' @
     [
      CHR 0xE0, CHR 0xE1, CHR 0xE2, CHR 0xE3, CHR 0xE4, CHR 0xE5, CHR 0xE6, CHR 0xE7,
      CHR 0xE8, CHR 0xE9, CHR 0xEA, CHR 0xEB, CHR 0xEC, CHR 0xED, CHR 0xEE, CHR 0xEF,
      CHR 0xF0, CHR 0xF1, CHR 0xF2, CHR 0xF3, CHR 0xF4, CHR 0xF5, CHR 0xF6, CHR 0xF8,
      CHR 0xF9, CHR 0xFA, CHR 0xFB, CHR 0xFC, CHR 0xFD, CHR 0xFE]"

definition toLowerChar :: "char \<Rightarrow> char" where
  "toLowerChar c = (case map_of (zip upperLetters lowerLetters) c of Some l \<Rightarrow> l | None \<Rightarrow> c)"

definition toLowerCase :: "string \<Rightarrow> string" where
  "toLowerCase s = map toLowerChar s"

text \<open>\<^verbatim>\<open>s.startsWith(k)\<close>, \<^verbatim>\<open>s.includes(k)\<close> and \<^verbatim>\<open>xs.join(sep)\<close>.\<close>

fun startsWith :: "string \<Rightarrow> string \<Rightarrow> bool" where
  "startsWith s [] = True"
| "startsWith [] (k # ks) = False"
| "startsWith (c # cs) (k # ks) = (c = k \<and> startsWith cs ks)"

fun includes_str :: "string \<Rightarrow> string \<Rightarrow> bool" where
  "includes_str [] k = (k = [])"
| "includes_str (c # cs) k = (startsWith (c # cs) k \<or> includes_str cs k)"

fun join :: "string \<Rightarrow> string list \<Rightarrow> string" where
  "join sep [] = []"
| "join sep [x] = x"
| "join sep (x # y # ys) = x @ sep @ join sep (y # ys)"

text \<open>
  White space (\<^verbatim>\<open>\\s\<close>, \<^verbatim>\<open>trim\<close>) and line terminators among the 8-bit
  characters; \<^verbatim>\<open>trim\<close>; \<^verbatim>\<open>s.split(/\\s+/)\<close>, which yields an empty first or last
  piece when the string starts or ends with white space.
\<close>

definition isWhiteSpace :: "char \<Rightarrow> bool" where
  "isWhiteSpace c = ((of_char c :: nat) \<in> {9, 10, 11, 12, 13, 32, 160})"

definition isLineTerminator :: "char \<Rightarrow> bool" where
  "isLineTerminator c = ((of_char c :: nat) \<in> {10, 13})"

definition trim :: "string \<Rightarrow> string" where
  "trim s = rev (dropWhile isWhiteSpace (rev (dropWhile isWhiteSpace s)))"

function splitWhiteSpace :: "string \<Rightarrow> string \<Rightarrow> string list" where
  "splitWhiteSpace cur [] = [rev cur]"
| "splitWhiteSpace cur (c # cs) =
     (if isWhiteSpace c then rev cur # splitWhiteSpace [] (dropWhile isWhiteSpace cs)
      else splitWhiteSpace (c # cur) cs)"
  by pat_completeness auto
termination
  by (relation "measure (\<lambda>(cur, s). length s)")
     (auto simp: less_Suc_eq_le length_dropWhile_le)

text \<open>
  \<^verbatim>\<open>new RegExp(keyword, 'gi')\<close>, for the patterns that are a sequence of literal
  characters and \<^verbatim>\<open>.\<close> (any character but a line terminator). A pattern with
  another syntax character is outside the model: \<open>RegExpNotModelled\<close>. With the flag
  \<^verbatim>\<open>i\<close> characters are compared after \<open>canonicalize\<close> (upper case). The upper
  case of \<^verbatim>\<open>U+00B5\<close> and of \<^verbatim>\<open>U+00FF\<close> is no 8-bit character and equals the
  canonical form of no other 8-bit character, and \<^verbatim>\<open>U+00DF\<close> has no single upper-case
  code unit: these three stand for themselves.
\<close>

datatype atom = Lit char | AnyChar

definition isSyntaxCharacter :: "char \<Rightarrow> bool" where
  "isSyntaxCharacter c = (c \<in> set ''^$.*+?()[]{}|'' \<or> c = CHR 0x5C)"

fun newRegExp :: "string \<Rightarrow> error + atom list" where
  "newRegExp [] = Inr []"
| "newRegExp (c # cs) =
     (if c = CHR ''.'' then map_sum id (Cons AnyChar) (newRegExp cs)
      else if isSyntaxCharacter c then Inl RegExpNotModelled
      else map_sum id (Cons (Lit c)) (newRegExp cs))"

definition canonicalize :: "char \<Rightarrow> char" where
  "canonicalize c = (case map_of (zip lowerLetters upperLetters) c of Some u \<Rightarrow> u | None \<Rightarrow> c)"

fun atomMatches :: "atom \<Rightarrow> char \<Rightarrow> bool" where
  "atomMatches (Lit k) c = (canonicalize k = canonicalize c)"
| "atomMatches AnyChar c = (\<not> isLineTerminator c)"

fun matchHere :: "atom list \<Rightarrow> string \<Rightarrow> bool" where
  "matchHere [] s = True"
| "matchHere (a # as) [] = False"
| "matchHere (a # as) (c # cs) = (atomMatches a c \<and> matchHere as cs)"

text \<open>
  \<^verbatim>\<open>(text.match(re) || []).length\<close> for a global \<^verbatim>\<open>re\<close>: the matches are found from
  left to right, the search resumes after a match, and one character further after an
  empty match.
\<close>

function matchCount :: "atom list \<Rightarrow> string \<Rightarrow> nat" where
  "matchCount re [] = (if matchHere re [] then 1 else 0)"
| "matchCount re (c # cs) =
     (if matchHere re (c # cs) then 1 + matchCount re (drop (length re - 1) cs)
      else matchCount re cs)"
  by pat_completeness auto
termination
  by (relation "measure (\<lambda>(re, s). length s)") auto

text \<open>
  \<^verbatim>\<open>xs.slice(0, end)\<close> for an integer \<^verbatim>\<open>end\<close>: a negative \<^verbatim>\<open>end\<close> counts from the
  end of the array.
\<close>

definition slice0 :: "'a list \<Rightarrow> int \<Rightarrow> 'a list" where
  "slice0 xs e =
     (let len = int (length xs);
          final = (if e < 0 then max (len + e) 0 else min e len)
      in take (nat final) xs)"

section \<open>Similarity engine\<close>

record vector_search =
  embeddingCache :: "(string \<times> embedding) list option"
  cacheValid :: bool

definition new_VectorSearch :: vector_search where
  "new_VectorSearch = \<lparr>embeddingCache = None, cacheValid = False\<rparr>"

text \<open>
  The arithmetic that \<^verbatim>\<open>cosineSimilarity\<close> uses is a parameter: the literal \<open>0\<close>,
  \<^verbatim>\<open>+\<close>, \<^verbatim>\<open>*\<close>, \<^verbatim>\<open>Math.sqrt\<close>, \<^verbatim>\<open>/\<close> and the test \<^verbatim>\<open>=== 0\<close>. The
  function is written once, over any such arithmetic.
\<close>

record 'n arithmetic =
  num_zero :: 'n
  num_add :: "'n \<Rightarrow> 'n \<Rightarrow> 'n"
  num_mul :: "'n \<Rightarrow> 'n \<Rightarrow> 'n"
  num_sqrt :: "'n \<Rightarrow> 'n"
  num_div :: "'n \<Rightarrow> 'n \<Rightarrow> 'n"
  num_is_zero :: "'n \<Rightarrow> bool"

definition cosine_step ::
  "'n arithmetic \<Rightarrow> 'n list \<Rightarrow> 'n list \<Rightarrow> nat \<Rightarrow> 'n \<times> 'n \<times> 'n \<Rightarrow> 'n \<times> 'n \<times> 'n" where
  "cosine_step A a b i acc =
     (case acc of (dotProduct, normA, normB) \<Rightarrow>
        (num_add A dotProduct (num_mul A (a ! i) (b ! i)),
         num_add A normA (num_mul A (a ! i) (a ! i)),
         num_add A normB (num_mul A (b ! i) (b ! i))))"

definition cosineSimilarityOn :: "'n arithmetic \<Rightarrow> 'n list \<Rightarrow> 'n list \<Rightarrow> error + 'n" where
  "cosineSimilarityOn A a b =
     (if length a \<noteq> length b then Inl DimensionMismatch
      else
        (case fold (cosine_step A a b) [0..<length a] (num_zero A, num_zero A, num_zero A) of
           (dotProduct, normA, normB) \<Rightarrow>
             (let denominator = num_mul A (num_sqrt A normA) (num_sqrt A normB)
              in if num_is_zero A denominator then Inr (num_zero A)
                 else Inr (num_div A dotProduct denominator))))"

text \<open>Exact arithmetic on the real numbers: the numbers of the search model.\<close>

definition real_arithmetic :: "real arithmetic" where
  "real_arithmetic =
     \<lparr>num_zero = 0, num_add = (+), num_mul = (*), num_sqrt = sqrt, num_div = (/),
      num_is_zero = (\<lambda>x. x = 0)\<rparr>"

definition cosineSimilarity :: "real list \<Rightarrow> real list \<Rightarrow> error + real" where
  "cosineSimilarity a b = cosineSimilarityOn real_arithmetic a b"

text \<open>
  The special values and the overflow of IEEE 754 doubles: a number is finite, an
  infinity or \<^verbatim>\<open>NaN\<close>, and a finite result beyond the largest double becomes an
  infinity. The rounding of finite results and the sign of zero are not modelled.
\<close>

datatype jsnum = Fin real | PosInf | NegInf | NaN

definition maxDouble :: real where
  "maxDouble = (2 - 1 / 2 ^ 52) * 2 ^ 1023"

definition overflow :: "real \<Rightarrow> jsnum" where
  "overflow r = (if maxDouble < r then PosInf else if r < - maxDouble then NegInf else Fin r)"

definition signedInf :: "bool \<Rightarrow> jsnum" where
  "signedInf positive = (if positive then PosInf else NegInf)"

fun js_add :: "jsnum \<Rightarrow> jsnum \<Rightarrow> jsnum" where
  "js_add (Fin x) (Fin y) = overflow (x + y)"
| "js_add NaN y = NaN"
| "js_add x NaN = NaN"
| "js_add PosInf NegInf = NaN"
| "js_add NegInf PosInf = NaN"
| "js_add PosInf y = PosInf"
| "js_add NegInf y = NegInf"
| "js_add x PosInf = PosInf"
| "js_add x NegInf = NegInf"

fun js_mul :: "jsnum \<Rightarrow> jsnum \<Rightarrow> jsnum" where
  "js_mul (Fin x) (Fin y) = overflow (x * y)"
| "js_mul NaN y = NaN"
| "js_mul x NaN = NaN"
| "js_mul (Fin x) PosInf = (if x = 0 then NaN else signedInf (0 < x))"
| "js_mul (Fin x) NegInf = (if x = 0 then NaN else signedInf (x < 0))"
| "js_mul PosInf (Fin y) = (if y = 0 then NaN else signedInf (0 < y))"
| "js_mul NegInf (Fin y) = (if y = 0 then NaN else signedInf (y < 0))"
| "js_mul PosInf PosInf = PosInf"
| "js_mul NegInf NegInf = PosInf"
| "js_mul PosInf NegInf = NegInf"
| "js_mul NegInf PosInf = NegInf"

fun js_sqrt :: "jsnum \<Rightarrow> jsnum" where
  "js_sqrt (Fin x) = (if x < 0 then NaN else Fin (sqrt x))"
| "js_sqrt PosInf = PosInf"
| "js_sqrt NegInf = NaN"
| "js_sqrt NaN = NaN"

fun js_div :: "jsnum \<Rightarrow> jsnum \<Rightarrow> jsnum" where
  "js_div (Fin x) (Fin y) =
     (if y = 0 then (if x = 0 then NaN else signedInf (0 < x)) else overflow (x / y))"
| "js_div NaN y = NaN"
| "js_div x NaN = NaN"
| "js_div (Fin x) PosInf = Fin 0"
| "js_div (Fin x) NegInf = Fin 0"
| "js_div PosInf (Fin y) = signedInf (0 \<le> y)"
| "js_div NegInf (Fin y) = signedInf (y < 0)"
| "js_div PosInf y = NaN"
| "js_div NegInf y = NaN"

definition double_arithmetic :: "jsnum arithmetic" where
  "double_arithmetic =
     \<lparr>num_zero = Fin 0, num_add = js_add, num_mul = js_mul, num_sqrt = js_sqrt,
      num_div = js_div, num_is_zero = (\<lambda>x. x = Fin 0)\<rparr>"

text \<open>
  The options of \<^verbatim>\<open>search\<close> after destructuring: a field the caller leaves out has
  its default.
\<close>

record search_options =
  limit :: int
  threshold :: real
  tagFilter :: "string list option"
  excludeIds :: "string list"

definition default_search_options :: search_options where
  "default_search_options = \<lparr>limit = 20, threshold = 3 / 10, tagFilter = None, excludeIds = []\<rparr>"

definition refreshCache :: "database \<Rightarrow> vector_search \<Rightarrow> vector_search" where
  "refreshCache db vs = vs\<lparr>embeddingCache := Some (getAllEmbeddings db), cacheValid := True\<rparr>"

definition invalidateCache :: "vector_search \<Rightarrow> vector_search" where
  "invalidateCache vs = vs\<lparr>cacheValid := False\<rparr>"

definition warmUp :: "database \<Rightarrow> vector_search \<Rightarrow> vector_search" where
  "warmUp db vs = (if \<not> cacheValid vs then refreshCache db vs else vs)"

text \<open>
  The scoring loop of \<^verbatim>\<open>search\<close> over the entries of the cache, in iteration
  order. A throwing \<^verbatim>\<open>cosineSimilarity\<close> ends the loop with its error.
\<close>

fun search_scan ::
  "real list \<Rightarrow> real \<Rightarrow> string list \<Rightarrow> (string \<times> embedding) list \<Rightarrow> error + (string \<times> real) list" where
  "search_scan q th ex [] = Inr []"
| "search_scan q th ex ((nid, e) # rest) =
     (if nid \<in> set ex then search_scan q th ex rest
      else
        (case cosineSimilarity q (vector e) of
           Inl err \<Rightarrow> Inl err
         | Inr sc \<Rightarrow>
             (case search_scan q th ex rest of
                Inl err \<Rightarrow> Inl err
              | Inr results \<Rightarrow> Inr (if sc \<ge> th then (nid, sc) # results else results))))"

text \<open>
  \<^verbatim>\<open>results.sort((a, b) => b.score - a.score)\<close>: a stable sort, descending by
  score.
\<close>

definition sortByScoreDesc :: "('a \<times> real) list \<Rightarrow> ('a \<times> real) list" where
  "sortByScoreDesc rs = sort_key (\<lambda>r. - snd r) rs"

text \<open>\<^verbatim>\<open>{...note, score: s}\<close>\<close>

definition withScore :: "'a note_record_scheme \<Rightarrow> real \<Rightarrow> scored_note" where
  "withScore n s =
     \<lparr>note_id = note_id n, title = title n, content = content n, tags = tags n, score = s\<rparr>"

definition hasMatchingTag :: "string list \<Rightarrow> string list \<Rightarrow> bool" where
  "hasMatchingTag tf noteTags =
     list_ex (\<lambda>t. toLowerCase t \<in> set (map toLowerCase noteTags)) tf"

definition resolveNote :: "database \<Rightarrow> string list option \<Rightarrow> string \<times> real \<Rightarrow> scored_note option" where
  "resolveNote db tf r =
     (case getNote db (fst r) of
        None \<Rightarrow> None
      | Some n \<Rightarrow>
          (case tf of
             None \<Rightarrow> Some (withScore n (snd r))
           | Some ts \<Rightarrow>
               (if length ts > 0 \<and> \<not> hasMatchingTag ts (tags n) then None
                else Some (withScore n (snd r)))))"

text \<open>
  The first half of \<^verbatim>\<open>search\<close>: refresh the cache when it is invalid or absent,
  score, sort and cut to \<^verbatim>\<open>limit\<close>. The result is \<^verbatim>\<open>topResults\<close>.
\<close>

definition ensureCache :: "database \<Rightarrow> vector_search \<Rightarrow> vector_search" where
  "ensureCache db vs =
     (if \<not> cacheValid vs \<or> embeddingCache vs = None then refreshCache db vs else vs)"

definition topResults ::
  "database \<Rightarrow> vector_search \<Rightarrow> real list \<Rightarrow> search_options \<Rightarrow> error + (string \<times> real) list" where
  "topResults db vs q options =
     (case embeddingCache (ensureCache db vs) of
        None \<Rightarrow> Inl TypeError
      | Some cache \<Rightarrow>
          (case search_scan q (threshold options) (excludeIds options) cache of
             Inl err \<Rightarrow> Inl err
           | Inr results \<Rightarrow> Inr (slice0 (sortByScoreDesc results) (limit options))))"

definition search ::
  "database \<Rightarrow> vector_search \<Rightarrow> real list \<Rightarrow> search_options \<Rightarrow>
   vector_search \<times> (error + scored_note list)" where
  "search db vs q options =
     (ensureCache db vs,
      (case topResults db vs q options of
         Inl err \<Rightarrow> Inl err
       | Inr chosen \<Rightarrow> Inr (List.map_filter (resolveNote db (tagFilter options)) chosen)))"

definition findSimilar ::
  "database \<Rightarrow> vector_search \<Rightarrow> string \<Rightarrow> int \<Rightarrow> vector_search \<times> (error + scored_note list)" where
  "findSimilar db vs nid n =
     (case getEmbedding db nid of
        None \<Rightarrow> (vs, Inr [])
      | Some e \<Rightarrow>
          search db vs (vector e)
            \<lparr>limit = n + 1, threshold = 1 / 2, tagFilter = None, excludeIds = [nid]\<rparr>)"

section \<open>Keyword search and tag search\<close>

definition searchText :: "note_record \<Rightarrow> string" where
  "searchText n = toLowerCase (title n @ '' '' @ content n @ '' '' @ join '' '' (tags n))"

text \<open>
  The loop over the lowercased keywords for one note, with the running \<^verbatim>\<open>score\<close>. A
  throwing \<^verbatim>\<open>new RegExp\<close> ends it.
\<close>

fun scoreKeywords :: "note_record \<Rightarrow> string list \<Rightarrow> real \<Rightarrow> error + real" where
  "scoreKeywords n [] sc = Inr sc"
| "scoreKeywords n (keyword # rest) sc =
     (case newRegExp keyword of
        Inl err \<Rightarrow> Inl err
      | Inr re \<Rightarrow>
          (let matches = matchCount re (searchText n);
               sc1 = sc + real matches;
               sc2 = (if includes_str (toLowerCase (title n)) keyword then sc1 + 2 else sc1);
               sc3 = (if list_ex (\<lambda>t. includes_str (toLowerCase t) keyword) (tags n)
                      then sc2 + 3 / 2 else sc2)
           in scoreKeywords n rest sc3))"

fun scoreNotes :: "string list \<Rightarrow> note_record list \<Rightarrow> error + (note_record \<times> real) list" where
  "scoreNotes keywordLower [] = Inr []"
| "scoreNotes keywordLower (n # ns) =
     (case scoreKeywords n keywordLower 0 of
        Inl err \<Rightarrow> Inl err
      | Inr sc \<Rightarrow>
          (case scoreNotes keywordLower ns of
             Inl err \<Rightarrow> Inl err
           | Inr scored \<Rightarrow> Inr ((n, sc) # scored)))"

definition keywordSearch :: "database \<Rightarrow> string list \<Rightarrow> int \<Rightarrow> error + scored_note list" where
  "keywordSearch db keywords lmt =
     (if length keywords = 0 then Inr []
      else
        (let allNotes = getAllNotes db 1000 0;
             keywordLower = map toLowerCase keywords
         in case scoreNotes keywordLower allNotes of
              Inl err \<Rightarrow> Inl err
            | Inr scored \<Rightarrow>
                Inr (map (\<lambda>item. withScore (fst item) (snd item / real (length keywordLower)))
                      (slice0 (sortByScoreDesc (filter (\<lambda>item. snd item > 0) scored)) lmt))))"

definition tagScore :: "string list \<Rightarrow> note_record \<Rightarrow> real" where
  "tagScore termLower n =
     fold (\<lambda>term sc.
             fold (\<lambda>tag sc.
                     if includes_str (toLowerCase tag) term
                     then sc + (if toLowerCase tag = term then 2 else 1)
                     else sc)
                  (tags n) sc)
          termLower 0"

definition tagSearch :: "database \<Rightarrow> string list \<Rightarrow> int \<Rightarrow> scored_note list" where
  "tagSearch db tagTerms lmt =
     (if length tagTerms = 0 then []
      else
        (let allNotes = getAllNotes db 1000 0;
             termLower = map toLowerCase tagTerms;
             scored = map (\<lambda>n. (n, tagScore termLower n)) allNotes
         in map (\<lambda>item. withScore (fst item) (snd item))
              (slice0 (sortByScoreDesc (filter (\<lambda>item. snd item > 0) scored)) lmt)))"

section \<open>Hybrid ranker\<close>

record hybrid_options =
  hlimit :: int
  semanticWeight :: real
  keywordWeight :: real
  hthreshold :: real

definition default_hybrid_options :: hybrid_options where
  "default_hybrid_options =
     \<lparr>hlimit = 20, semanticWeight = 7 / 10, keywordWeight = 3 / 10, hthreshold = 3 / 10\<rparr>"

text \<open>
  \<^verbatim>\<open>scoreMap\<close> is a \<^verbatim>\<open>Map\<close> from note id to \<^verbatim>\<open>{note, score}\<close>. The two
  \<^verbatim>\<open>forEach\<close> callbacks, with the index and the length of the list they run over:
\<close>

type_synonym score_map = "(string \<times> (scored_note \<times> real)) list"

definition addSemantic :: "real \<Rightarrow> nat \<Rightarrow> nat \<times> scored_note \<Rightarrow> score_map \<Rightarrow> score_map" where
  "addSemantic sw len p m =
     (case p of (index, n) \<Rightarrow>
        (let semanticScore = score n * sw;
             positionBoost = 1 - (real index / real len) * (1 / 10)
         in AList.update (note_id n) (n, semanticScore * positionBoost) m))"

definition addKeyword :: "real \<Rightarrow> nat \<Rightarrow> nat \<times> scored_note \<Rightarrow> score_map \<Rightarrow> score_map" where
  "addKeyword kw len p m =
     (case p of (index, n) \<Rightarrow>
        (let keywordScore = (1 - real index / real len) * kw
         in case map_of m (note_id n) of
              Some existing \<Rightarrow>
                AList.update (note_id n) (fst existing, snd existing + keywordScore) m
            | None \<Rightarrow> AList.update (note_id n) (n, keywordScore) m))"

definition buildScoreMap :: "real \<Rightarrow> real \<Rightarrow> scored_note list \<Rightarrow> scored_note list \<Rightarrow> score_map" where
  "buildScoreMap sw kw semanticResults keywordResults =
     fold (addKeyword kw (length keywordResults)) (enumerate 0 keywordResults)
       (fold (addSemantic sw (length semanticResults)) (enumerate 0 semanticResults) [])"

definition mergeResults :: "int \<Rightarrow> score_map \<Rightarrow> scored_note list" where
  "mergeResults lmt m =
     map (\<lambda>item. withScore (fst item) (snd item)) (slice0 (sortByScoreDesc (map snd m)) lmt)"

definition hybridSearch ::
  "database \<Rightarrow> vector_search \<Rightarrow> real list \<Rightarrow> string list \<Rightarrow> hybrid_options \<Rightarrow>
   vector_search \<times> (error + scored_note list)" where
  "hybridSearch db vs q keywords options =
     (case search db vs q
             \<lparr>limit = hlimit options * 2, threshold = hthreshold options,
                tagFilter = None, excludeIds = []\<rparr> of
        (vs1, Inl err) \<Rightarrow> (vs1, Inl err)
      | (vs1, Inr semanticResults) \<Rightarrow>
          (case keywordSearch db keywords (hlimit options * 2) of
             Inl err \<Rightarrow> (vs1, Inl err)
           | Inr keywordResults \<Rightarrow>
               (vs1, Inr (mergeResults (hlimit options)
                            (buildScoreMap (semanticWeight options) (keywordWeight options)
                               semanticResults keywordResults)))))"







section \<open>Query router\<close>

datatype parsed_query = TagQuery "string list" | KeywordQuery "string list"

text \<open>
  \<^verbatim>\<open>query.match(/^tag:\\s*(.+)$/i)\<close>: the capture group, when the query matches. The
  greedy \<^verbatim>\<open>\\s*\<close> takes the longest run of white space that leaves a non-empty
  rest without line terminators.
\<close>

definition tagMatch :: "string \<Rightarrow> string option" where
  "tagMatch query =
     (if length query \<ge> 4 \<and> map canonicalize (take 4 query) = map canonicalize ''tag:''
      then
        (let rest = drop 4 query;
             k = length (takeWhile isWhiteSpace rest)
         in case find (\<lambda>j. drop j rest \<noteq> [] \<and> list_all (\<lambda>c. \<not> isLineTerminator c) (drop j rest))
                   (rev [0..<Suc k]) of
              None \<Rightarrow> None
            | Some j \<Rightarrow> Some (drop j rest))
      else None)"

definition parseSearchQuery :: "string \<Rightarrow> parsed_query" where
  "parseSearchQuery query =
     (case tagMatch query of
        Some body \<Rightarrow> TagQuery (filter (\<lambda>t. length t > 0) (splitWhiteSpace [] body))
      | None \<Rightarrow> KeywordQuery (filter (\<lambda>w. length w > 1) (splitWhiteSpace [] query)))"

text \<open>
  What \<^verbatim>\<open>handleSearch\<close> leaves on the screen: nothing new (the early return), the
  results with an optional notice, or the message of a caught error. \<open>provider\<close> is the
  answer (\<^verbatim>\<open>embeddings.embed\<close>) of the Embedding Provider, \<open>None\<close> for \<^verbatim>\<open>null\<close>.
\<close>

datatype view = Untouched | Rendered "scored_note list" "string option" | RenderedError error

definition handleSearch ::
  "(string \<Rightarrow> real list option) \<Rightarrow> database \<Rightarrow> vector_search \<Rightarrow> string \<Rightarrow> vector_search \<times> view" where
  "handleSearch provider db vs input =
     (let query = trim input
      in if length query < 2 then (vs, Untouched)
         else
           (case parseSearchQuery query of
              TagQuery ts \<Rightarrow> (vs, Rendered (tagSearch db ts 20) (Some ''Searching tags only''))
            | KeywordQuery ts \<Rightarrow>
                (case provider query of
                   Some embedding \<Rightarrow>
                     (case hybridSearch db vs embedding ts
                             \<lparr>hlimit = 20, semanticWeight = 7 / 10, keywordWeight = 3 / 10,
                                hthreshold = 3 / 10\<rparr> of
                        (vs1, Inl err) \<Rightarrow> (vs1, RenderedError err)
                      | (vs1, Inr results) \<Rightarrow> (vs1, Rendered results None))
                 | None \<Rightarrow>
                     (case keywordSearch db ts 20 of
                        Inl err \<Rightarrow> (vs, RenderedError err)
                      | Inr results \<Rightarrow>
                          (vs, Rendered results (Some ''Using keyword search (AI model loading...)''))))))"

text \<open>The quantities of the specification: dot product and Euclidean norm.\<close>

definition spec_dot :: "real list \<Rightarrow> real list \<Rightarrow> real" where
  "spec_dot a b = sum_list (map (\<lambda>(x, y). x * y) (zip a b))"

definition spec_norm :: "real list \<Rightarrow> real" where
  "spec_norm a = sqrt (sum_list (map (\<lambda>x. x * x) a))"

text \<open>The same quantities over any arithmetic, summed from left to right.\<close>

definition spec_dotOn :: "'n arithmetic \<Rightarrow> 'n list \<Rightarrow> 'n list \<Rightarrow> 'n" where
  "spec_dotOn A a b = foldl (num_add A) (num_zero A) (map (\<lambda>(x, y). num_mul A x y) (zip a b))"

definition spec_normOn :: "'n arithmetic \<Rightarrow> 'n list \<Rightarrow> 'n" where
  "spec_normOn A a = num_sqrt A (foldl (num_add A) (num_zero A) (map (\<lambda>x. num_mul A x x) a))"






section \<open>Example stores\<close>

definition ex_note :: "string \<Rightarrow> string list \<Rightarrow> note_record" where
  "ex_note k ts = \<lparr>note_id = k, title = k, content = [], tags = ts\<rparr>"

definition ex_embedding :: "string \<Rightarrow> real list \<Rightarrow> embedding" where
  "ex_embedding k v = \<lparr>noteId = k, vector = v, modelVersion = ''all-MiniLM-L6-v2''\<rparr>"

text \<open>Three notes with the same embedding.\<close>

definition ex_db :: database where
  "ex_db =
     \<lparr>notesStore = [ex_note ''a'' [], ex_note ''b'' [], ex_note ''c'' []],
      embeddingsStore = [ex_embedding ''a'' [1], ex_embedding ''b'' [1], ex_embedding ''c'' [1]]\<rparr>"

text \<open>The same store after \<^verbatim>\<open>deleteEmbedding('c')\<close>.\<close>

definition ex_db_deleted :: database where
  "ex_db_deleted =
     \<lparr>notesStore = [ex_note ''a'' [], ex_note ''b'' [], ex_note ''c'' []],
      embeddingsStore = [ex_embedding ''a'' [1], ex_embedding ''b'' [1]]\<rparr>"

text \<open>Three tagged notes, and an embedding \<open>z\<close> whose note is gone.\<close>

definition ex_db_tags :: database where
  "ex_db_tags =
     \<lparr>notesStore = [ex_note ''b'' [''javascript-frameworks''], ex_note ''a'' [''JavaScript''],
                    ex_note ''c'' [''javascript'']],
      embeddingsStore = [ex_embedding ''a'' [1], ex_embedding ''b'' [1], ex_embedding ''z'' [1]]\<rparr>"



text \<open>One note whose title is \<open>axb\<close>.\<close>

definition ex_db_axb :: database where
  "ex_db_axb = \<lparr>notesStore = [ex_note ''axb'' []], embeddingsStore = []\<rparr>"



section \<open>Cosine similarity\<close>

lemma cosine_fold_prefix:
  "n \<le> length a \<Longrightarrow> length a = length b \<Longrightarrow>
   fold (cosine_step A a b) [0..<n] (num_zero A, num_zero A, num_zero A) =
     (foldl (num_add A) (num_zero A) (map (\<lambda>(x, y). num_mul A x y) (zip (take n a) (take n b))),
      foldl (num_add A) (num_zero A) (map (\<lambda>x. num_mul A x x) (take n a)),
      foldl (num_add A) (num_zero A) (map (\<lambda>x. num_mul A x x) (take n b)))"
proof (induction n)
  case 0
  show ?case by simp
next
  case (Suc n)
  then have n: "n < length a" "n < length b" by simp_all
  let ?acc = "(foldl (num_add A) (num_zero A) (map (\<lambda>(x, y). num_mul A x y) (zip (take n a) (take n b))),
      foldl (num_add A) (num_zero A) (map (\<lambda>x. num_mul A x x) (take n a)),
      foldl (num_add A) (num_zero A) (map (\<lambda>x. num_mul A x x) (take n b)))"
  from Suc have IH: "fold (cosine_step A a b) [0..<n] (num_zero A, num_zero A, num_zero A) = ?acc"
    by simp
  have "fold (cosine_step A a b) [0..<Suc n] (num_zero A, num_zero A, num_zero A) =
        cosine_step A a b n (fold (cosine_step A a b) [0..<n] (num_zero A, num_zero A, num_zero A))"
    by simp
  also have "\<dots> = cosine_step A a b n ?acc"
    by (simp only: IH)
  also have "\<dots> =
     (foldl (num_add A) (num_zero A)
        (map (\<lambda>(x, y). num_mul A x y) (zip (take (Suc n) a) (take (Suc n) b))),
      foldl (num_add A) (num_zero A) (map (\<lambda>x. num_mul A x x) (take (Suc n) a)),
      foldl (num_add A) (num_zero A) (map (\<lambda>x. num_mul A x x) (take (Suc n) b)))"
    using n by (simp add: cosine_step_def take_Suc_conv_app_nth)
  finally show ?case .
qed

lemma cosine_fold:
  assumes "length a = length b"
  shows "fold (cosine_step A a b) [0..<length a] (num_zero A, num_zero A, num_zero A) =
     (spec_dotOn A a b,
      foldl (num_add A) (num_zero A) (map (\<lambda>x. num_mul A x x) a),
      foldl (num_add A) (num_zero A) (map (\<lambda>x. num_mul A x x) b))"
  using cosine_fold_prefix [of "length a" a b A] assms by (simp add: spec_dotOn_def)

lemma cosineSimilarityOn_equal_length:
  assumes "length a = length b"
  shows "cosineSimilarityOn A a b =
     Inr (if num_is_zero A (num_mul A (spec_normOn A a) (spec_normOn A b)) then num_zero A
          else num_div A (spec_dotOn A a b) (num_mul A (spec_normOn A a) (spec_normOn A b)))"
  using assms cosine_fold [OF assms, of A]
  by (simp add: cosineSimilarityOn_def spec_normOn_def Let_def)

lemma foldl_add_real: "foldl (+) (z::real) xs = z + sum_list xs"
  by (induction xs arbitrary: z) simp_all

lemma spec_dotOn_real: "spec_dotOn real_arithmetic a b = spec_dot a b"
  by (simp add: spec_dotOn_def spec_dot_def real_arithmetic_def foldl_add_real)

lemma spec_normOn_real: "spec_normOn real_arithmetic a = spec_norm a"
  by (simp add: spec_normOn_def spec_norm_def real_arithmetic_def foldl_add_real)

lemma cosineSimilarity_equal_length:
  assumes "length a = length b"
  shows "cosineSimilarity a b =
     Inr (if spec_norm a = 0 \<or> spec_norm b = 0 then 0
          else spec_dot a b / (spec_norm a * spec_norm b))"
proof -
  have "cosineSimilarity a b =
     Inr (if num_is_zero real_arithmetic
               (num_mul real_arithmetic (spec_norm a) (spec_norm b)) then num_zero real_arithmetic
          else num_div real_arithmetic (spec_dot a b)
                 (num_mul real_arithmetic (spec_norm a) (spec_norm b)))"
    unfolding cosineSimilarity_def cosineSimilarityOn_equal_length [OF assms]
      spec_dotOn_real spec_normOn_real ..
  then show ?thesis by (simp add: real_arithmetic_def)
qed

lemma cosineSimilarity_mismatch:
  "length a \<noteq> length b \<Longrightarrow> cosineSimilarity a b = Inl DimensionMismatch"
  by (simp add: cosineSimilarity_def cosineSimilarityOn_def)

lemma double_overflow: "js_mul (Fin (10 ^ 200)) (Fin (10 ^ 200)) = PosInf"
  by (simp add: overflow_def maxDouble_def)

text \<open>
  C2, as amended. Over any arithmetic, \<open>cosineSimilarity a b\<close> fails with the
  dimension mismatch error exactly when the lengths differ. For vectors of equal length
  it never fails: it returns the literal \<open>0\<close>, without dividing, when the computed
  denominator (the product of the two norms) is \<open>0\<close>, and otherwise the dot product
  divided by that denominator. In exact real arithmetic the denominator is \<open>0\<close> exactly
  when either norm is \<open>0\<close>.
\<close>

theorem cosineSimilarity_spec:
  "(cosineSimilarityOn A a b = Inl DimensionMismatch \<longleftrightarrow> length a \<noteq> length b) \<and>
   (length a = length b \<longrightarrow>
      cosineSimilarityOn A a b =
        Inr (if num_is_zero A (num_mul A (spec_normOn A a) (spec_normOn A b)) then num_zero A
             else num_div A (spec_dotOn A a b)
                    (num_mul A (spec_normOn A a) (spec_normOn A b)))) \<and>
   (cosineSimilarity x y = Inl DimensionMismatch \<longleftrightarrow> length x \<noteq> length y) \<and>
   (length x = length y \<longrightarrow>
      cosineSimilarity x y =
        Inr (if spec_norm x = 0 \<or> spec_norm y = 0 then 0
             else spec_dot x y / (spec_norm x * spec_norm y)))"
proof (intro conjI impI)
  show "cosineSimilarityOn A a b = Inl DimensionMismatch \<longleftrightarrow> length a \<noteq> length b"
    by (cases "length a = length b")
       (simp_all add: cosineSimilarityOn_equal_length, simp add: cosineSimilarityOn_def)
  show "cosineSimilarity x y = Inl DimensionMismatch \<longleftrightarrow> length x \<noteq> length y"
    by (cases "length x = length y")
       (simp_all add: cosineSimilarity_equal_length cosineSimilarity_mismatch)
next
  assume "length a = length b"
  then show "cosineSimilarityOn A a b =
        Inr (if num_is_zero A (num_mul A (spec_normOn A a) (spec_normOn A b)) then num_zero A
             else num_div A (spec_dotOn A a b)
                    (num_mul A (spec_normOn A a) (spec_normOn A b)))"
    by (rule cosineSimilarityOn_equal_length)
next
  assume "length x = length y"
  then show "cosineSimilarity x y =
        Inr (if spec_norm x = 0 \<or> spec_norm y = 0 then 0
             else spec_dot x y / (spec_norm x * spec_norm y))"
    by (rule cosineSimilarity_equal_length)
qed

theorem cosineSimilarity_spec_witness:
  "cosineSimilarity [3, 4] [3, 4] = Inr 1 \<and> cosineSimilarity [0, 0] [3, 4] = Inr 0 \<and>
   cosineSimilarity [1] [3, 4] = Inl DimensionMismatch \<and>
   cosineSimilarityOn double_arithmetic [Fin 0, Fin 0] [Fin 3, Fin 4] = Inr (Fin 0) \<and>
   cosineSimilarityOn double_arithmetic [Fin 1] [Fin 3, Fin 4] = Inl DimensionMismatch"
proof -
  have n: "spec_norm [3, 4] = 5" "spec_norm [0, 0] = 0"
    using real_sqrt_abs [of 5] by (simp_all add: spec_norm_def)
  have d: "spec_dot [3, 4] [3, 4] = 25" by (simp add: spec_dot_def)
  note spec = cosineSimilarity_spec
  have "cosineSimilarity [3, 4] [3, 4] = Inr 1"
    using spec [of real_arithmetic "[]" "[]" "[3, 4]" "[3, 4]"] n d by simp
  moreover have "cosineSimilarity [0, 0] [3, 4] = Inr 0"
    using spec [of real_arithmetic "[]" "[]" "[0, 0]" "[3, 4]"] n by simp
  moreover have "cosineSimilarity [1] [3, 4] = Inl DimensionMismatch"
    using spec [of real_arithmetic "[]" "[]" "[1]" "[3, 4]"] by simp
  moreover have "cosineSimilarityOn double_arithmetic [Fin 0, Fin 0] [Fin 3, Fin 4] = Inr (Fin 0)"
    using spec [of double_arithmetic "[Fin 0, Fin 0]" "[Fin 3, Fin 4]" "[]" "[]"]
    by (simp add: spec_normOn_def spec_dotOn_def double_arithmetic_def overflow_def
        maxDouble_def)
  moreover have "cosineSimilarityOn double_arithmetic [Fin 1] [Fin 3, Fin 4] =
                 Inl DimensionMismatch"
    using spec [of double_arithmetic "[Fin 1]" "[Fin 3, Fin 4]" "[]" "[]"] by simp
  ultimately show ?thesis by simp
qed

text \<open>
  The claim as stated, \<open>0\<close> whenever either norm is \<open>0\<close>, fails on doubles: for the
  zero vector \<open>[0]\<close> and \<open>[1e200]\<close> the second sum of squares overflows, the
  denominator is \<open>0 * Infinity = NaN\<close>, the test \<^verbatim>\<open>=== 0\<close> is false and the result is
  \<open>0 / NaN = NaN\<close>.
\<close>

theorem cosineSimilarity_zero_vector_counterexample:
  "spec_normOn double_arithmetic [Fin 0] = Fin 0 \<and>
   cosineSimilarityOn double_arithmetic [Fin 0] [Fin (10 ^ 200)] = Inr NaN"
  by (simp add: cosineSimilarityOn_def cosine_step_def spec_normOn_def double_arithmetic_def
      double_overflow del: js_mul.simps(1))
     (simp add: overflow_def maxDouble_def)

text \<open>The Cauchy-Schwarz inequality bounds the similarity by \<open>1\<close>.\<close>

lemma cauchy_step:
  fixes d A B x y :: real
  assumes "d\<^sup>2 \<le> A * B" "0 \<le> A" "0 \<le> B"
  shows "(d + x * y)\<^sup>2 \<le> (A + x * x) * (B + y * y)"
proof -
  have amgm: "4 * (A * y\<^sup>2) * (B * x\<^sup>2) \<le> (A * y\<^sup>2 + B * x\<^sup>2)\<^sup>2"
  proof -
    have "0 \<le> (A * y\<^sup>2 - B * x\<^sup>2)\<^sup>2" by simp
    then show ?thesis by (simp add: power2_eq_square algebra_simps)
  qed
  have "(2 * d * x * y)\<^sup>2 = 4 * d\<^sup>2 * (x\<^sup>2 * y\<^sup>2)"
    by (simp add: power2_eq_square algebra_simps)
  also have "\<dots> \<le> 4 * (A * B) * (x\<^sup>2 * y\<^sup>2)"
    using assms(1) by (intro mult_right_mono mult_left_mono) simp_all
  also have "\<dots> = 4 * (A * y\<^sup>2) * (B * x\<^sup>2)"
    by (simp add: algebra_simps)
  finally have "(2 * d * x * y)\<^sup>2 \<le> (A * y\<^sup>2 + B * x\<^sup>2)\<^sup>2"
    using amgm by linarith
  moreover have "0 \<le> A * y\<^sup>2 + B * x\<^sup>2"
    using assms(2,3) by simp
  ultimately have "2 * d * x * y \<le> A * y\<^sup>2 + B * x\<^sup>2"
    using power2_le_imp_le by blast
  moreover have "(d + x * y)\<^sup>2 = d\<^sup>2 + 2 * d * x * y + x\<^sup>2 * y\<^sup>2"
    by (simp add: power2_eq_square algebra_simps)
  moreover have "(A + x * x) * (B + y * y) = A * B + (A * y\<^sup>2 + B * x\<^sup>2) + x\<^sup>2 * y\<^sup>2"
    by (simp add: power2_eq_square algebra_simps)
  ultimately show ?thesis using assms(1) by linarith
qed

lemma sum_squares_nonneg: "0 \<le> (\<Sum>x\<leftarrow>a. x * (x::real))"
  by (induction a) simp_all

lemma cauchy_schwarz:
  "length a = length b \<Longrightarrow>
   (spec_dot a b)\<^sup>2 \<le> (\<Sum>x\<leftarrow>a. x * x) * (\<Sum>y\<leftarrow>b. y * y)"
proof (induction a b rule: list_induct2)
  case Nil
  show ?case by (simp add: spec_dot_def)
next
  case (Cons x xs y ys)
  have "(spec_dot xs ys + x * y)\<^sup>2 \<le> ((\<Sum>x\<leftarrow>xs. x * x) + x * x) * ((\<Sum>y\<leftarrow>ys. y * y) + y * y)"
    using Cons.IH sum_squares_nonneg [of xs] sum_squares_nonneg [of ys]
    by (rule cauchy_step)
  then show ?case by (simp add: spec_dot_def add.commute)
qed

lemma cosineSimilarity_le_one:
  assumes "cosineSimilarity a b = Inr r"
  shows "r \<le> 1"
proof -
  from assms have len: "length a = length b"
    using cosineSimilarity_mismatch [of a b] by (cases "length a = length b") auto
  let ?A = "\<Sum>x\<leftarrow>a. x * x" and ?B = "\<Sum>y\<leftarrow>b. y * y"
  from assms cosineSimilarity_equal_length [OF len]
  have r: "r = (if spec_norm a = 0 \<or> spec_norm b = 0 then 0
                else spec_dot a b / (spec_norm a * spec_norm b))" by simp
  show ?thesis
  proof (cases "spec_norm a = 0 \<or> spec_norm b = 0")
    case True
    with r show ?thesis by simp
  next
    case False
    have nn: "0 \<le> ?A" "0 \<le> ?B" by (rule sum_squares_nonneg)+
    have prod: "spec_norm a * spec_norm b = sqrt (?A * ?B)"
      by (simp add: spec_norm_def real_sqrt_mult)
    from False nn have pos: "0 < spec_norm a * spec_norm b"
      by (simp add: spec_norm_def zero_less_mult_iff less_le)
    have "spec_dot a b \<le> sqrt (?A * ?B)"
      using cauchy_schwarz [OF len] by (rule real_le_rsqrt)
    with prod pos False r show ?thesis by simp
  qed
qed


section \<open>Search\<close>

lemmas string_simps =
  toLowerCase_def toLowerChar_def upperLetters_def lowerLetters_def canonicalize_def
  isWhiteSpace_def isLineTerminator_def isSyntaxCharacter_def

text \<open>
  The Latin-1 capitals are lowered as well; the sign \<^verbatim>\<open>U+00D7\<close>, \<^verbatim>\<open>U+00DF\<close> and
  \<^verbatim>\<open>U+00FF\<close> stay.
\<close>

lemma toLowerCase_latin1:
  "toLowerCase (''CAF'' @ [CHR 0xC9]) = ''caf'' @ [CHR 0xE9] \<and>
   toLowerCase [CHR 0xD7, CHR 0xDF, CHR 0xFF] = [CHR 0xD7, CHR 0xDF, CHR 0xFF]"
  by (simp add: string_simps)

lemma search_scan_props:
  "search_scan q th ex cache = Inr rs \<Longrightarrow> (k, s) \<in> set rs \<Longrightarrow>
     s \<ge> th \<and> k \<notin> set ex \<and> (\<exists>e::embedding. (k, e) \<in> set cache \<and> cosineSimilarity q (vector e) = Inr s)"
proof (induction cache arbitrary: rs)
  case Nil
  then show ?case by simp
next
  case (Cons p cache)
  obtain nid e where p: "p = (nid, e)" by (cases p)
  show ?case
  proof (cases "nid \<in> set ex")
    case True
    with Cons p show ?thesis by auto
  next
    case False
    with Cons.prems p obtain sc rest where
      sc: "cosineSimilarity q (vector e) = Inr sc" and
      rest: "search_scan q th ex cache = Inr rest" and
      rs: "rs = (if sc \<ge> th then (nid, sc) # rest else rest)"
      by (auto split: sum.splits)
    show ?thesis
    proof (cases "(k, s) \<in> set rest")
      case True
      from Cons.IH [OF rest True] p show ?thesis by auto
    next
      case notin: False
      with rs Cons.prems(2) have "sc \<ge> th" "k = nid" "s = sc"
        by (auto split: if_splits)
      with False sc p show ?thesis by auto
    qed
  qed
qed


lemma length_slice0: "0 \<le> e \<Longrightarrow> int (length (slice0 xs e)) \<le> e"
  by (simp add: slice0_def Let_def)


lemma set_slice0: "x \<in> set (slice0 xs e) \<Longrightarrow> x \<in> set xs"
  by (auto simp: slice0_def Let_def dest: in_set_takeD)

lemma length_map_filter_le: "length (List.map_filter f xs) \<le> length xs"
  by (induction xs) (auto simp: List.map_filter_simps split: option.splits)

lemma set_map_filter: "x \<in> set (List.map_filter f xs) \<longleftrightarrow> (\<exists>y\<in>set xs. f y = Some x)"
  by (induction xs) (auto simp: List.map_filter_simps split: option.splits)

lemma getNote_id: "getNote db k = Some n \<Longrightarrow> note_id n = k \<and> n \<in> set (notesStore db)"
  by (auto simp: getNote_def find_Some_iff)

lemma resolveNote_Some:
  "resolveNote db tf r = Some x \<Longrightarrow> score x = snd r \<and> note_id x = fst r"
  by (auto simp: resolveNote_def withScore_def split: option.splits if_splits dest: getNote_id)

lemma set_sortByScoreDesc [simp]: "set (sortByScoreDesc rs) = set rs"
  by (simp add: sortByScoreDesc_def)

lemma score_withScore [simp]: "score (withScore n s) = s"
  by (simp add: withScore_def)

lemma note_id_withScore [simp]: "note_id (withScore n s) = note_id n"
  by (simp add: withScore_def)

lemma search_result_length:
  assumes "search db vs q options = (vs', Inr rs)" and "0 \<le> limit options"
  shows "int (length rs) \<le> limit options"
proof -
  from assms(1) obtain chosen where
    top: "topResults db vs q options = Inr chosen" and
    rs: "rs = List.map_filter (resolveNote db (tagFilter options)) chosen"
    by (auto simp: search_def split: sum.splits)
  from top obtain results where
    chosen: "chosen = slice0 (sortByScoreDesc results) (limit options)"
    by (auto simp: topResults_def split: option.splits sum.splits)
  have "length rs \<le> length chosen"
    unfolding rs by (rule length_map_filter_le)
  moreover have "int (length chosen) \<le> limit options"
    unfolding chosen using assms(2) by (rule length_slice0)
  ultimately show ?thesis by linarith
qed

lemma search_result_props:
  assumes "search db vs q options = (vs', Inr rs)" and "n \<in> set rs"
  shows "score n \<ge> threshold options \<and> note_id n \<notin> set (excludeIds options) \<and>
         (\<exists>e::embedding. cosineSimilarity q (vector e) = Inr (score n))"
proof -
  from assms(1) obtain chosen where
    top: "topResults db vs q options = Inr chosen" and
    rs: "rs = List.map_filter (resolveNote db (tagFilter options)) chosen"
    by (auto simp: search_def split: sum.splits)
  from top obtain cache results where
    scan: "search_scan q (threshold options) (excludeIds options) cache = Inr results" and
    chosen: "chosen = slice0 (sortByScoreDesc results) (limit options)"
    by (auto simp: topResults_def split: option.splits sum.splits)
  from assms(2) rs obtain r where r: "r \<in> set chosen"
    and res: "resolveNote db (tagFilter options) r = Some n"
    by (auto simp: set_map_filter)
  from r chosen have "(fst r, snd r) \<in> set results"
    by (auto dest: set_slice0)
  from search_scan_props [OF scan this] resolveNote_Some [OF res]
  show ?thesis by auto
qed

text \<open>Evaluation on the example store.\<close>

lemma ex_note_sel:
  "note_id (ex_note k ts) = k" "title (ex_note k ts) = k" "content (ex_note k ts) = []"
  "tags (ex_note k ts) = ts"
  by (simp_all add: ex_note_def)

lemma cosine_unit: "cosineSimilarity [1] [1] = Inr 1"
  by (simp add: cosineSimilarity_def cosineSimilarityOn_def cosine_step_def real_arithmetic_def)

lemma ex_db_embeddings:
  "getAllEmbeddings ex_db =
     [(''a'', ex_embedding ''a'' [1]), (''b'', ex_embedding ''b'' [1]), (''c'', ex_embedding ''c'' [1])]"
  by (simp add: getAllEmbeddings_def ex_db_def ex_embedding_def)

lemma ex_db_cache:
  "embeddingCache (ensureCache ex_db new_VectorSearch) = Some (getAllEmbeddings ex_db)"
  by (simp add: ensureCache_def new_VectorSearch_def refreshCache_def)

lemma ex_db_getNote:
  "getNote ex_db ''a'' = Some (ex_note ''a'' [])"
  "getNote ex_db ''b'' = Some (ex_note ''b'' [])"
  "getNote ex_db ''c'' = Some (ex_note ''c'' [])"
  by (simp_all add: getNote_def ex_db_def ex_note_def)

lemma ex_embedding_vector: "vector (ex_embedding k v) = v"
  by (simp add: ex_embedding_def)

lemma ex_db_search_exclude:
  "snd (search ex_db new_VectorSearch [1]
          \<lparr>limit = 2, threshold = 3 / 10, tagFilter = None, excludeIds = [''a'']\<rparr>) =
   Inr [withScore (ex_note ''b'' []) 1, withScore (ex_note ''c'' []) 1]"
  by (simp add: search_def topResults_def ex_db_cache ex_db_embeddings ex_embedding_vector
      cosine_unit sortByScoreDesc_def slice0_def List.map_filter_simps resolveNote_def
      ex_db_getNote)

lemma ex_db_search_negative:
  "snd (search ex_db new_VectorSearch [1]
          \<lparr>limit = - 1, threshold = 3 / 10, tagFilter = None, excludeIds = []\<rparr>) =
   Inr [withScore (ex_note ''a'' []) 1, withScore (ex_note ''b'' []) 1]"
  by (simp add: search_def topResults_def ex_db_cache ex_db_embeddings ex_embedding_vector
      cosine_unit sortByScoreDesc_def slice0_def List.map_filter_simps resolveNote_def
      ex_db_getNote)

text \<open>
  C1, as amended. Whenever \<open>search\<close> returns, for every options value, each returned
  note has a score of at least \<open>threshold\<close> and an id outside \<open>excludeIds\<close>; when
  \<open>limit\<close> is not negative, at most \<open>limit\<close> notes are returned.
\<close>

theorem search_bounds:
  assumes "search db vs q options = (vs', Inr rs)"
  shows "(\<forall>n \<in> set rs. score n \<ge> threshold options \<and> note_id n \<notin> set (excludeIds options)) \<and>
         (0 \<le> limit options \<longrightarrow> int (length rs) \<le> limit options)"
  using search_result_length [OF assms] search_result_props [OF assms] by blast

theorem search_bounds_witness:
  "int (length [withScore (ex_note ''b'' []) 1, withScore (ex_note ''c'' []) 1]) \<le> 2 \<and>
   score (withScore (ex_note ''b'' []) 1) \<ge> 3 / 10 \<and>
   note_id (withScore (ex_note ''b'' []) 1) \<noteq> ''a'' \<and>
   score (withScore (ex_note ''c'' []) 1) \<ge> 3 / 10 \<and>
   note_id (withScore (ex_note ''c'' []) 1) \<noteq> ''a'' \<and>
   snd (search ex_db new_VectorSearch [1]
          \<lparr>limit = 2, threshold = 3 / 10, tagFilter = None, excludeIds = [''a'']\<rparr>) =
     Inr [withScore (ex_note ''b'' []) 1, withScore (ex_note ''c'' []) 1]"
proof -
  let ?o = "\<lparr>limit = 2, threshold = 3 / 10, tagFilter = None, excludeIds = [''a'']\<rparr>"
  let ?rs = "[withScore (ex_note ''b'' []) 1, withScore (ex_note ''c'' []) 1]"
  have run: "search ex_db new_VectorSearch [1] ?o =
             (fst (search ex_db new_VectorSearch [1] ?o), Inr ?rs)"
    using ex_db_search_exclude by (simp add: prod_eq_iff)
  from search_bounds [OF run] ex_db_search_exclude show ?thesis by simp
qed

text \<open>
  The count of the claim as stated, for every options value, fails for a negative
  \<open>limit\<close>: \<^verbatim>\<open>slice(0, -1)\<close> drops the last of three candidates and two notes are
  returned.
\<close>

theorem search_negative_limit_counterexample:
  "snd (search ex_db new_VectorSearch [1]
          \<lparr>limit = - 1, threshold = 3 / 10, tagFilter = None, excludeIds = []\<rparr>) =
     Inr [withScore (ex_note ''a'' []) 1, withScore (ex_note ''b'' []) 1] \<and>
   \<not> int (length [withScore (ex_note ''a'' []) 1, withScore (ex_note ''b'' []) 1]) \<le> - 1"
  using ex_db_search_negative by simp

section \<open>Cache invalidation\<close>

lemma ex_db_deleted_embeddings:
  "getAllEmbeddings ex_db_deleted =
     [(''a'', ex_embedding ''a'' [1]), (''b'', ex_embedding ''b'' [1])]"
  by (simp add: getAllEmbeddings_def ex_db_deleted_def ex_embedding_def)

lemma ex_db_deleted_cache:
  "embeddingCache (ensureCache ex_db_deleted new_VectorSearch) =
     Some (getAllEmbeddings ex_db_deleted)"
  by (simp add: ensureCache_def new_VectorSearch_def refreshCache_def)

lemma ex_db_deleted_getNote:
  "getNote ex_db_deleted ''a'' = Some (ex_note ''a'' [])"
  "getNote ex_db_deleted ''b'' = Some (ex_note ''b'' [])"
  "getNote ex_db_deleted ''c'' = Some (ex_note ''c'' [])"
  by (simp_all add: getNote_def ex_db_deleted_def ex_note_def)

lemma ex_db_deleted_search_fresh:
  "snd (search ex_db_deleted new_VectorSearch [1] default_search_options) =
   Inr [withScore (ex_note ''a'' []) 1, withScore (ex_note ''b'' []) 1]"
  by (simp add: search_def topResults_def ex_db_deleted_cache ex_db_deleted_embeddings
      ex_embedding_vector cosine_unit sortByScoreDesc_def slice0_def List.map_filter_simps
      resolveNote_def ex_db_deleted_getNote default_search_options_def)

lemma ex_db_deleted_search_stale:
  "snd (search ex_db_deleted (refreshCache ex_db new_VectorSearch) [1] default_search_options) =
   Inr [withScore (ex_note ''a'' []) 1, withScore (ex_note ''b'' []) 1,
        withScore (ex_note ''c'' []) 1]"
  by (simp add: search_def topResults_def ensureCache_def refreshCache_def ex_db_embeddings
      ex_embedding_vector cosine_unit sortByScoreDesc_def slice0_def List.map_filter_simps
      resolveNote_def ex_db_deleted_getNote default_search_options_def)

text \<open>
  C4. \<open>invalidateCache\<close> leaves the cached map as it is and only marks it invalid.
  The next \<open>search\<close> replaces the cache by the embeddings the store holds at that
  moment, before it scores: its result does not depend on the old cache and is that of
  a new engine on the current store.
\<close>

theorem invalidateCache_then_search:
  "embeddingCache (invalidateCache vs) = embeddingCache vs \<and>
   cacheValid (invalidateCache vs) = False \<and>
   fst (search db (invalidateCache vs) q options) =
     \<lparr>embeddingCache = Some (getAllEmbeddings db), cacheValid = True\<rparr> \<and>
   snd (search db (invalidateCache vs) q options) = snd (search db new_VectorSearch q options)"
  by (simp add: invalidateCache_def search_def topResults_def ensureCache_def
      refreshCache_def new_VectorSearch_def)

text \<open>
  The embedding of \<open>c\<close> is deleted after a refresh: a search on the stale cache still
  returns \<open>c\<close>, a search after \<open>invalidateCache\<close> does not.
\<close>

theorem invalidateCache_then_search_witness:
  "snd (search ex_db_deleted (invalidateCache (refreshCache ex_db new_VectorSearch)) [1]
          default_search_options) =
     Inr [withScore (ex_note ''a'' []) 1, withScore (ex_note ''b'' []) 1] \<and>
   snd (search ex_db_deleted (refreshCache ex_db new_VectorSearch) [1] default_search_options) =
     Inr [withScore (ex_note ''a'' []) 1, withScore (ex_note ''b'' []) 1,
          withScore (ex_note ''c'' []) 1]"
  using invalidateCache_then_search
          [of "refreshCache ex_db new_VectorSearch" ex_db_deleted "[1]" default_search_options]
        ex_db_deleted_search_fresh ex_db_deleted_search_stale
  by simp

section \<open>Similar notes\<close>

lemma findSimilar_no_embedding:
  "getEmbedding db nid = None \<Longrightarrow> findSimilar db vs nid n = (vs, Inr [])"
  by (simp add: findSimilar_def)

lemma findSimilar_props:
  assumes "findSimilar db vs nid n = (vs', Inr rs)" and "0 \<le> n"
  shows "int (length rs) \<le> n + 1 \<and> (\<forall>x \<in> set rs. note_id x \<noteq> nid \<and> score x \<ge> 1 / 2)"
proof (cases "getEmbedding db nid")
  case None
  with assms show ?thesis by (simp add: findSimilar_def)
next
  case (Some e)
  let ?o = "\<lparr>limit = n + 1, threshold = 1 / 2, tagFilter = None, excludeIds = [nid]\<rparr>"
  from Some assms(1) have run: "search db vs (vector e) ?o = (vs', Inr rs)"
    by (simp add: findSimilar_def)
  from assms(2) have "0 \<le> limit ?o" by simp
  from search_result_length [OF run this] search_result_props [OF run]
  show ?thesis by auto
qed

lemma ex_db_getEmbedding: "getEmbedding ex_db ''a'' = Some (ex_embedding ''a'' [1])"
  by (simp add: getEmbedding_def ex_db_def ex_embedding_def)

text \<open>
  C6. The code asks \<open>search\<close> for \<open>limit + 1\<close> notes and excludes the note itself
  inside \<open>search\<close>, before the cut, so \<open>findSimilar\<close> can return \<open>limit + 1\<close> notes:
  with three notes of equal embedding, \<open>findSimilar a 1\<close> returns two notes. The other
  parts of the claim hold (\<open>findSimilar_props\<close>, \<open>findSimilar_no_embedding\<close>).
\<close>

theorem findSimilar_returns_one_more:
  "snd (findSimilar ex_db new_VectorSearch ''a'' 1) =
     Inr [withScore (ex_note ''b'' []) 1, withScore (ex_note ''c'' []) 1]"
  by (simp add: findSimilar_def ex_db_getEmbedding ex_embedding_vector
      search_def topResults_def ex_db_cache ex_db_embeddings
      cosine_unit sortByScoreDesc_def slice0_def List.map_filter_simps resolveNote_def
      ex_db_getNote)

section \<open>Resolution of the scored ids\<close>

lemma hasMatchingTag_iff:
  "hasMatchingTag ts noteTags \<longleftrightarrow>
     (\<exists>t \<in> set ts. \<exists>tag \<in> set noteTags. toLowerCase tag = toLowerCase t)"
  unfolding hasMatchingTag_def list_ex_iff set_map image_iff by metis

lemma resolveNote_Some_iff:
  "resolveNote db tf (k, s) = Some x \<longleftrightarrow>
     (\<exists>n. getNote db k = Some n \<and> x = withScore n s \<and>
        (\<forall>ts. tf = Some ts \<and> ts \<noteq> [] \<longrightarrow>
           (\<exists>t \<in> set ts. \<exists>tag \<in> set (tags n). toLowerCase tag = toLowerCase t)))"
  by (cases "getNote db k"; cases tf) (auto simp: resolveNote_def hasMatchingTag_iff)

lemma lower_javascript:
  "toLowerCase ''JavaScript'' = ''javascript''"
  "toLowerCase ''javascript'' = ''javascript''"
  "toLowerCase ''javascript-frameworks'' = ''javascript-frameworks''"
  by (simp_all add: string_simps)

lemma ex_db_tags_top:
  "topResults ex_db_tags new_VectorSearch [1]
     \<lparr>limit = 20, threshold = 3 / 10, tagFilter = Some [''javascript''], excludeIds = []\<rparr> =
   Inr [(''a'', 1), (''b'', 1), (''z'', 1)]"
  by (simp add: topResults_def ensureCache_def new_VectorSearch_def refreshCache_def
      getAllEmbeddings_def ex_db_tags_def ex_embedding_def cosine_unit sortByScoreDesc_def
      slice0_def)

lemma ex_db_tags_getNote:
  "getNote ex_db_tags ''a'' = Some (ex_note ''a'' [''JavaScript''])"
  "getNote ex_db_tags ''b'' = Some (ex_note ''b'' [''javascript-frameworks''])"
  "getNote ex_db_tags ''z'' = None"
  by (simp_all add: getNote_def ex_db_tags_def ex_note_def)

text \<open>
  C8, as amended. The resolution of the chosen ids raises no error. A scored note is
  returned exactly when it comes from a chosen id whose note the store still holds
  and, if a non-empty \<open>tagFilter\<close> is given, some tag of the note equals some filter
  term after \<^verbatim>\<open>toLowerCase\<close> on both (\<^verbatim>\<open>Array.prototype.includes\<close> on the
  lowercased tag list). An id without a note contributes nothing.
\<close>

theorem search_resolution:
  assumes "topResults db vs q options = Inr chosen"
  shows "\<exists>rs. snd (search db vs q options) = Inr rs \<and>
     (\<forall>x. x \<in> set rs \<longleftrightarrow>
        (\<exists>k s n. (k, s) \<in> set chosen \<and> getNote db k = Some n \<and> x = withScore n s \<and>
           (\<forall>ts. tagFilter options = Some ts \<and> ts \<noteq> [] \<longrightarrow>
              (\<exists>t \<in> set ts. \<exists>tag \<in> set (tags n). toLowerCase tag = toLowerCase t))))"
proof -
  let ?rs = "List.map_filter (resolveNote db (tagFilter options)) chosen"
  have rs: "snd (search db vs q options) = Inr ?rs"
    using assms by (simp add: search_def)
  have "x \<in> set ?rs \<longleftrightarrow>
        (\<exists>k s n. (k, s) \<in> set chosen \<and> getNote db k = Some n \<and> x = withScore n s \<and>
           (\<forall>ts. tagFilter options = Some ts \<and> ts \<noteq> [] \<longrightarrow>
              (\<exists>t \<in> set ts. \<exists>tag \<in> set (tags n). toLowerCase tag = toLowerCase t)))" for x
  proof -
    have "x \<in> set ?rs \<longleftrightarrow>
          (\<exists>k s. (k, s) \<in> set chosen \<and> resolveNote db (tagFilter options) (k, s) = Some x)"
      unfolding set_map_filter by auto
    then show ?thesis
      unfolding resolveNote_Some_iff by blast
  qed
  with rs show ?thesis by blast
qed

theorem search_resolution_witness:
  "topResults ex_db_tags new_VectorSearch [1]
     \<lparr>limit = 20, threshold = 3 / 10, tagFilter = Some [''javascript''], excludeIds = []\<rparr> =
   Inr [(''a'', 1), (''b'', 1), (''z'', 1)] \<and>
   (\<exists>rs. snd (search ex_db_tags new_VectorSearch [1]
               \<lparr>limit = 20, threshold = 3 / 10, tagFilter = Some [''javascript''],
                  excludeIds = []\<rparr>) = Inr rs \<and>
         withScore (ex_note ''a'' [''JavaScript'']) 1 \<in> set rs \<and>
         withScore (ex_note ''b'' [''javascript-frameworks'']) 1 \<notin> set rs)"
proof -
  let ?o = "\<lparr>limit = 20, threshold = 3 / 10, tagFilter = Some [''javascript''],
               excludeIds = []\<rparr>"
  from search_resolution [OF ex_db_tags_top] obtain rs where
    rs: "snd (search ex_db_tags new_VectorSearch [1] ?o) = Inr rs" and
    mem: "\<And>x. x \<in> set rs \<longleftrightarrow>
        (\<exists>k s n. (k, s) \<in> set [(''a'', 1), (''b'', 1), (''z'', 1 :: real)] \<and>
           getNote ex_db_tags k = Some n \<and> x = withScore n s \<and>
           (\<forall>ts. tagFilter ?o = Some ts \<and> ts \<noteq> [] \<longrightarrow>
              (\<exists>t \<in> set ts. \<exists>tag \<in> set (tags n). toLowerCase tag = toLowerCase t)))"
    by blast
  have a: "withScore (ex_note ''a'' [''JavaScript'']) 1 \<in> set rs"
    unfolding mem
    by (rule exI [of _ "''a''"], rule exI [of _ 1], rule exI [of _ "ex_note ''a'' [''JavaScript'']"])
       (simp add: ex_db_tags_getNote ex_note_def lower_javascript)
  have b: "withScore (ex_note ''b'' [''javascript-frameworks'']) 1 \<notin> set rs"
  proof
    assume "withScore (ex_note ''b'' [''javascript-frameworks'']) 1 \<in> set rs"
    then obtain s and n :: note_record where
      eq: "withScore (ex_note ''b'' [''javascript-frameworks'']) 1 = withScore n s" and
      tf: "\<forall>ts. tagFilter ?o = Some ts \<and> ts \<noteq> [] \<longrightarrow>
              (\<exists>t \<in> set ts. \<exists>tag \<in> set (tags n). toLowerCase tag = toLowerCase t)"
      unfolding mem by blast
    from tf have ex: "\<exists>tag \<in> set (tags n). toLowerCase tag = toLowerCase ''javascript''"
      by simp
    from eq have "tags n = [''javascript-frameworks'']"
      by (simp add: withScore_def ex_note_def)
    with ex show False
      by (simp add: lower_javascript)
  qed
  from ex_db_tags_top rs a b show ?thesis by blast
qed

text \<open>
  The claim as stated, a tag matching a term by containment, fails: the tag
  \<open>javascript-frameworks\<close> contains the filter term \<open>javascript\<close>, the note \<open>b\<close> that
  carries it is among the chosen ids and in the store, and the search drops it.
\<close>

theorem search_tagFilter_counterexample:
  "includes_str (toLowerCase ''javascript-frameworks'') (toLowerCase ''javascript'') \<and>
   getNote ex_db_tags ''b'' = Some (ex_note ''b'' [''javascript-frameworks'']) \<and>
   topResults ex_db_tags new_VectorSearch [1]
     \<lparr>limit = 20, threshold = 3 / 10, tagFilter = Some [''javascript''], excludeIds = []\<rparr> =
     Inr [(''a'', 1), (''b'', 1), (''z'', 1)] \<and>
   snd (search ex_db_tags new_VectorSearch [1]
          \<lparr>limit = 20, threshold = 3 / 10, tagFilter = Some [''javascript''],
             excludeIds = []\<rparr>) =
     Inr [withScore (ex_note ''a'' [''JavaScript'']) 1]"
  by (simp add: search_def ex_db_tags_top ex_db_tags_getNote List.map_filter_simps
      resolveNote_def hasMatchingTag_def ex_note_sel lower_javascript)

section \<open>Tag search\<close>

lemma getAllNotes_cursor_take:
  "getAllNotes_cursor l 0 0 rs ns = rs @ take (l - length rs) ns"
proof (induction ns arbitrary: rs)
  case Nil
  show ?case by simp
next
  case (Cons n ns)
  show ?case
  proof (cases "l \<le> length rs")
    case True
    then show ?thesis by simp
  next
    case False
    then obtain d where d: "l - length rs = Suc d" "l - Suc (length rs) = d"
      by (cases "l - length rs") auto
    with False Cons.IH [of "rs @ [n]"] show ?thesis by simp
  qed
qed

lemma getAllNotes_take: "getAllNotes db l 0 = take l (notesStore db)"
  by (simp add: getAllNotes_def getAllNotes_cursor_take)




lemma fold_add: "fold (\<lambda>x (sc::real). sc + f x) xs a = a + sum_list (map f xs)"
  by (induction xs arbitrary: a) simp_all





















section \<open>Keyword search\<close>

lemma ex_axb_searchText: "searchText (ex_note ''axb'' []) = ''axb  ''"
  by (simp add: searchText_def ex_note_sel string_simps)

lemma lower_terms:
  "toLowerCase ''a.b'' = ''a.b''" "toLowerCase ''axb'' = ''axb''"
  by (simp_all add: string_simps)

lemma ex_axb_score_pattern: "scoreKeywords (ex_note ''axb'' []) [''a.b''] 0 = Inr 1"
  by (simp add: ex_axb_searchText ex_note_sel string_simps)

lemma ex_axb_score_title: "scoreKeywords (ex_note ''axb'' []) [''axb''] 0 = Inr 3"
  by (simp add: ex_axb_searchText ex_note_sel string_simps)

lemma keywordSearch_no_terms: "keywordSearch db [] lmt = Inr []"
  by (simp add: keywordSearch_def)

lemma ex_axb_keywordSearch:
  "keywordSearch ex_db_axb [''axb''] 20 = Inr [withScore (ex_note ''axb'' []) 3]"
  by (simp add: keywordSearch_def getAllNotes_take ex_db_axb_def Let_def lower_terms
      ex_axb_score_title sortByScoreDesc_def slice0_def del: scoreKeywords.simps)

text \<open>
  C5. The code builds \<^verbatim>\<open>new RegExp(keyword, 'gi')\<close> from the term as it is, so the
  term is read as a pattern and not as a literal substring. For a note titled \<open>axb\<close> and
  the term \<open>a.b\<close>, the text of the note does not contain \<open>a.b\<close>, yet the pattern
  matches once: the note is returned with score \<open>1\<close>, where the claim gives it the score
  \<open>0\<close> and leaves it out.
\<close>

theorem keywordSearch_term_read_as_pattern:
  "keywordSearch ex_db_axb [''a.b''] 20 = Inr [withScore (ex_note ''axb'' []) 1] \<and>
   \<not> includes_str (searchText (ex_note ''axb'' [])) ''a.b''"
  by (simp add: keywordSearch_def getAllNotes_take ex_db_axb_def Let_def lower_terms
      ex_axb_score_pattern sortByScoreDesc_def slice0_def ex_axb_searchText
      del: scoreKeywords.simps)

section \<open>Fallback of the query router\<close>

lemma trim_axb: "trim '' axb x '' = ''axb x''"
  by (simp add: trim_def string_simps)

lemma parse_axb: "parseSearchQuery ''axb x'' = KeywordQuery [''axb'']"
  by (simp add: parseSearchQuery_def tagMatch_def string_simps)

lemma handleSearch_short_query:
  "length (trim input) < 2 \<Longrightarrow> handleSearch provider db vs input = (vs, Untouched)"
  by (simp add: handleSearch_def Let_def)

text \<open>
  C9, as amended. For a query whose trimmed text has at least two characters, that is
  not a tag query and for which the provider yields no vector, \<open>handleSearch\<close> runs
  \<open>keywordSearch\<close> alone on the parsed terms with limit \<open>20\<close> and leaves the engine as
  it is. When \<open>keywordSearch\<close> returns, the view shows its results with the notice
  \<open>Using keyword search (AI model loading...)\<close>; when it throws, the error is caught
  and shown. No exception leaves \<open>handleSearch\<close>.
\<close>

theorem handleSearch_fallback:
  assumes "length (trim input) \<ge> 2"
    and "parseSearchQuery (trim input) = KeywordQuery ts"
    and "provider (trim input) = None"
  shows "handleSearch provider db vs input =
     (vs, case keywordSearch db ts 20 of
            Inl err \<Rightarrow> RenderedError err
          | Inr results \<Rightarrow> Rendered results (Some ''Using keyword search (AI model loading...)''))"
  using assms by (simp add: handleSearch_def Let_def split: sum.splits)

theorem handleSearch_fallback_witness:
  "length (trim '' axb x '') \<ge> 2 \<and>
   parseSearchQuery (trim '' axb x '') = KeywordQuery [''axb''] \<and>
   handleSearch (\<lambda>q. None) ex_db_axb new_VectorSearch '' axb x '' =
     (new_VectorSearch,
      Rendered [withScore (ex_note ''axb'' []) 3] (Some ''Using keyword search (AI model loading...)''))"
proof -
  have l: "length (trim '' axb x '') \<ge> 2" by (simp add: trim_axb)
  have p: "parseSearchQuery (trim '' axb x '') = KeywordQuery [''axb'']"
    by (simp add: trim_axb parse_axb)
  have n: "(\<lambda>q::string. None :: real list option) (trim '' axb x '') = None" by simp
  from handleSearch_fallback [OF l p n, of ex_db_axb new_VectorSearch] l p
  show ?thesis by (simp add: ex_axb_keywordSearch)
qed

text \<open>
  The claim as stated, for every query that is not a tag query, fails for a query of
  one character: \<open>handleSearch\<close> returns before it parses, asks the provider nothing and
  shows neither results nor notice, while \<open>keywordSearch\<close> on the parsed terms returns
  the empty list.
\<close>

theorem handleSearch_short_query_counterexample:
  "parseSearchQuery (trim ''a'') = KeywordQuery [] \<and>
   keywordSearch ex_db_axb [] 20 = Inr [] \<and>
   handleSearch (\<lambda>q. None) ex_db_axb new_VectorSearch ''a'' = (new_VectorSearch, Untouched) \<and>
   Untouched \<noteq> Rendered [] (Some ''Using keyword search (AI model loading...)'')"
  by (simp add: handleSearch_def keywordSearch_def parseSearchQuery_def tagMatch_def trim_def
      string_simps)

section \<open>The score map of the hybrid ranker\<close>





































text \<open>In the exact arithmetic of the model the raw similarity is never above \<open>1\<close>.\<close>

lemma search_raw_le_one:
  assumes "search db vs q options = (vs', Inr sem)" and "x \<in> set sem"
  shows "score x \<le> 1"
proof -
  from search_result_props [OF assms] obtain e :: embedding where
    "cosineSimilarity q (vector e) = Inr (score x)" by auto
  then show ?thesis by (rule cosineSimilarity_le_one)
qed
















section \<open>Hybrid search\<close>







end
